theory Spec2Isabelle
  imports Complex_Main "HOL-Library.Word"
begin

section \<open>Double precision numbers\<close>

text \<open>
  The planner of \<^verbatim>\<open>modules/planning/planner/lattice/lattice_planner.cc\<close> computes with
  \<^verbatim>\<open>double\<close>. A finite double is the real number it stands for; a sum or a difference
  of two doubles is the exact result rounded to the nearest double, to the even
  significand when two are equally near (IEEE 754 binary64). Comparisons are exact.

  \<open>binade a\<close> is the exponent \<open>e\<close> with \<open>2 ^ e \<le> a < 2 ^ (e + 1)\<close> of a positive number,
  found by halving or doubling. The doubles of that binade are the multiples of
  \<open>2 ^ (e - 52)\<close>; below \<open>2 ^ - 1022\<close> they are the multiples of \<open>2 ^ - 1074\<close>. A result beyond
  the largest finite double is infinite in IEEE; here it keeps its rounded finite value,
  which compares with every finite double as infinity does.
\<close>

function exp_ge1 :: "real \<Rightarrow> nat" where
  "exp_ge1 x = (if 2 \<le> x then Suc (exp_ge1 (x / 2)) else 0)"
  by pat_completeness auto
termination
proof (relation "measure (\<lambda>x. nat \<lfloor>x\<rfloor>)")
  show "wf (measure (\<lambda>x::real. nat \<lfloor>x\<rfloor>))" by simp
next
  fix x :: real assume "2 \<le> x"
  then have "\<lfloor>x / 2\<rfloor> < \<lfloor>x\<rfloor>" by linarith
  moreover from \<open>2 \<le> x\<close> have "0 < \<lfloor>x\<rfloor>" by linarith
  ultimately show "(x / 2, x) \<in> measure (\<lambda>x. nat \<lfloor>x\<rfloor>)" by simp
qed

function exp_lt1 :: "real \<Rightarrow> nat" where
  "exp_lt1 x = (if 0 < x \<and> x < 1 then Suc (exp_lt1 (2 * x)) else 0)"
  by pat_completeness auto
termination
proof (relation "measure (\<lambda>x. nat \<lceil>1 / x\<rceil>)")
  show "wf (measure (\<lambda>x::real. nat \<lceil>1 / x\<rceil>))" by simp
next
  fix x :: real assume a: "0 < x \<and> x < 1"
  then have one: "1 < 1 / x" by simp
  have half: "\<lceil>y / 2\<rceil> < \<lceil>y\<rceil>" if "1 < y" for y :: real
  proof -
    from that have two: "2 \<le> \<lceil>y\<rceil>" by linarith
    from two have "(2::real) \<le> of_int \<lceil>y\<rceil>" by linarith
    moreover have "y \<le> of_int \<lceil>y\<rceil>" by linarith
    ultimately have "y / 2 \<le> of_int \<lceil>y\<rceil> - 1" by linarith
    then show ?thesis by (simp only: ceiling_less_iff)
  qed
  from half[OF one] have "\<lceil>1 / (2 * x)\<rceil> < \<lceil>1 / x\<rceil>" by (simp add: mult.commute)
  moreover from one have "0 < \<lceil>1 / x\<rceil>" by linarith
  ultimately show "(2 * x, x) \<in> measure (\<lambda>x. nat \<lceil>1 / x\<rceil>)" by simp
qed

declare exp_ge1.simps [simp del] exp_lt1.simps [simp del]

definition binade :: "real \<Rightarrow> int" where
  "binade a = (if 1 \<le> a then int (exp_ge1 a) else - int (exp_lt1 a))"

definition quantum :: "int \<Rightarrow> real" where
  "quantum e = (if 52 \<le> e then 2 ^ nat (e - 52) else 1 / 2 ^ nat (52 - e))"

definition round_half_even :: "real \<Rightarrow> int" where
  "round_half_even m =
    (let f = \<lfloor>m\<rfloor>; r = m - of_int f
     in if r < 1 / 2 then f else if 1 / 2 < r then f + 1 else if even f then f else f + 1)"

definition round_to_quantum :: "real \<Rightarrow> real \<Rightarrow> real" where
  "round_to_quantum a q = of_int (round_half_even (a / q)) * q"

definition round_double :: "real \<Rightarrow> real" where
  "round_double x =
    (if x = 0 then 0
     else sgn x * round_to_quantum \<bar>x\<bar> (quantum (max (binade \<bar>x\<bar>) (- 1022))))"

text \<open>
  The sum and the difference of two doubles. Adding zero to a double gives that double,
  which is written out so that it holds of every argument.
\<close>

definition double_add :: "real \<Rightarrow> real \<Rightarrow> real" where
  "double_add x y = (if x = 0 then y else if y = 0 then x else round_double (x + y))"

definition double_sub :: "real \<Rightarrow> real \<Rightarrow> real" where
  "double_sub x y = double_add x (- y)"

section \<open>Data model of the lattice planner\<close>

text \<open>
  A \<^verbatim>\<open>PathPoint\<close> is one sample of the discretized reference line. Its fields
  \<^verbatim>\<open>x, y, theta, kappa, dkappa, s\<close> carry the prefix \<open>pp_\<close>, so that the
  one-letter names stay free for variables.
\<close>

record PathPoint =
  pp_x :: real
  pp_y :: real
  pp_theta :: real
  pp_kappa :: real
  pp_dkappa :: real
  pp_s :: real

text \<open>
  A \<^verbatim>\<open>TrajectoryPoint\<close> holds a path point, the speed \<^verbatim>\<open>v\<close>, the acceleration
  \<^verbatim>\<open>a\<close> and the time relative to the start of the cycle.
\<close>

record TrajectoryPoint =
  path_point :: PathPoint
  tp_v :: real
  tp_a :: real
  relative_time :: real

type_synonym DiscretizedTrajectory = "TrajectoryPoint list"

text \<open>
  \<^verbatim>\<open>Curve1d\<close> is an abstract class with the virtual methods \<^verbatim>\<open>Evaluate(order, param)\<close>
  and \<^verbatim>\<open>ParamLength()\<close>. The planner tells one subclass apart with
  \<^verbatim>\<open>dynamic_pointer_cast\<close>: \<^verbatim>\<open>LatticeTrajectory1d\<close>, which also has a target position,
  velocity and time. The dynamic type of a curve is the constructor.
\<close>

datatype Curve1d =
  LatticeTrajectory1d
    (Evaluate: "nat \<Rightarrow> real \<Rightarrow> real") (ParamLength: real)
    (target_position: real) (target_velocity: real) (target_time: real)
| OtherCurve1d
    (Evaluate: "nat \<Rightarrow> real \<Rightarrow> real") (ParamLength: real)

text \<open>
  Modelled from the spec: the class \<^verbatim>\<open>Obstacle\<close> is declared outside this file; the spec
  describes an obstacle as an identity with a predicted future trajectory.
\<close>

record Obstacle =
  obstacle_id :: string
  predicted_trajectory :: "TrajectoryPoint list"

text \<open>
  What the planner uses and this file does not define: the two constants of
  \<^verbatim>\<open>lattice_params.h\<close>, the reference-line matcher, the Frenet to Cartesian conversion,
  the two predicates of \<^verbatim>\<open>LatticeConstraintChecker\<close>, the collision checker (built
  from the obstacles of the frame, then asked about one trajectory) and the logging
  macros of \<^verbatim>\<open>modules/common/log.h\<close>. They are parameters. Of the macros, \<^verbatim>\<open>AINFO\<close>
  evaluates the operands streamed into it; \<^verbatim>\<open>ADEBUG\<close> does so only when the logger is
  set to print debug lines, which \<open>debug_logging\<close> says.
\<close>

record collaborators =
  planned_trajectory_time :: real
  trajectory_time_resolution :: real
  MatchToReferenceLine :: "PathPoint list \<Rightarrow> real \<Rightarrow> PathPoint"
  frenet_to_cartesian ::
    "real \<Rightarrow> real \<Rightarrow> real \<Rightarrow> real \<Rightarrow> real \<Rightarrow> real \<Rightarrow> real \<times> real \<times> real \<Rightarrow> real \<times> real \<times> real
      \<Rightarrow> real \<times> real \<times> real \<times> real \<times> real \<times> real"
  IsValidTrajectoryPair :: "Curve1d \<Rightarrow> Curve1d \<Rightarrow> bool"
  IsValidTrajectory :: "DiscretizedTrajectory \<Rightarrow> bool"
  InCollision :: "Obstacle list \<Rightarrow> DiscretizedTrajectory \<Rightarrow> bool"
  debug_logging :: bool

text \<open>
  The undefined behaviours the C++ can run into: \<^verbatim>\<open>back()\<close> of an empty vector, a
  dereferenced null pointer, and \<^verbatim>\<open>operator[]\<close> beyond the size of a vector. Where the
  loop of \<^verbatim>\<open>Plan\<close> runs into one, the fault comes with the state it is reached in.
\<close>

datatype fault =
  BackOfEmptyVector
| NullPointerDereference
| CostComponentOutOfRange
| TrajectoryPointOutOfRange

section \<open>CombineTrajectory\<close>

text \<open>
  The body of the loop of \<^verbatim>\<open>CombineTrajectory\<close> after the test \<^verbatim>\<open>s > s_ref_max\<close>: the
  trajectory point built at the time parameter \<open>t_param\<close>. The fields of the new
  protobuf message that the code does not set keep their default, zero.
\<close>

definition combined_point ::
  "collaborators \<Rightarrow> PathPoint list \<Rightarrow> Curve1d \<Rightarrow> Curve1d \<Rightarrow> real \<Rightarrow> real \<Rightarrow> real \<Rightarrow> TrajectoryPoint"
where
  "combined_point deps reference_line lon_trajectory lat_trajectory init_relative_time s0 t_param =
    (let s = Evaluate lon_trajectory 0 t_param;
         s_dot = Evaluate lon_trajectory 1 t_param;
         s_ddot = Evaluate lon_trajectory 2 t_param;
         s_param = double_sub s s0;
         d = Evaluate lat_trajectory 0 s_param;
         d_prime = Evaluate lat_trajectory 1 s_param;
         d_pprime = Evaluate lat_trajectory 2 s_param;
         matched_ref_point = MatchToReferenceLine deps reference_line s;
         rs = pp_s matched_ref_point;
         rx = pp_x matched_ref_point;
         ry = pp_y matched_ref_point;
         rtheta = pp_theta matched_ref_point;
         rkappa = pp_kappa matched_ref_point;
         rdkappa = pp_dkappa matched_ref_point;
         s_conditions = (rs, s_dot, s_ddot);
         d_conditions = (d, d_prime, d_pprime)
     in case frenet_to_cartesian deps rs rx ry rtheta rkappa rdkappa s_conditions d_conditions of
          (x, y, theta, kappa, v, a) \<Rightarrow>
            \<lparr> path_point = \<lparr> pp_x = x, pp_y = y, pp_theta = theta, pp_kappa = kappa,
                             pp_dkappa = 0, pp_s = 0 \<rparr>,
              tp_v = v, tp_a = a,
              relative_time = double_add t_param init_relative_time \<rparr>)"

text \<open>
  The \<^verbatim>\<open>while (t_param < planned_trajectory_time)\<close> loop. Nothing in the code bounds the
  number of rounds (a resolution that is not positive, or too small to change the rounded
  sum, never reaches the horizon), so the loop is a partial function: \<open>None\<close> is a loop
  that does not return.
\<close>

partial_function (option) combine_loop ::
  "collaborators \<Rightarrow> PathPoint list \<Rightarrow> Curve1d \<Rightarrow> Curve1d \<Rightarrow> real \<Rightarrow> real \<Rightarrow> real \<Rightarrow> real
    \<Rightarrow> DiscretizedTrajectory \<Rightarrow> DiscretizedTrajectory option"
where
  "combine_loop deps reference_line lon_trajectory lat_trajectory init_relative_time
      s0 s_ref_max t_param combined_trajectory =
    (if t_param < planned_trajectory_time deps then
       (let s = Evaluate lon_trajectory 0 t_param in
        if s > s_ref_max then Some combined_trajectory
        else combine_loop deps reference_line lon_trajectory lat_trajectory init_relative_time
               s0 s_ref_max (double_add t_param (trajectory_time_resolution deps))
               (combined_trajectory @
                 [combined_point deps reference_line lon_trajectory lat_trajectory
                    init_relative_time s0 t_param]))
     else Some combined_trajectory)"

declare combine_loop.simps [code]

text \<open>
  \<^verbatim>\<open>CombineTrajectory\<close> reads \<^verbatim>\<open>reference_line.back().s()\<close> before the loop: on an empty
  reference line that is undefined behaviour, here the fault \<open>BackOfEmptyVector\<close>. The two
  parameter lengths are read and not used.
\<close>

definition CombineTrajectory ::
  "collaborators \<Rightarrow> PathPoint list \<Rightarrow> Curve1d \<Rightarrow> Curve1d \<Rightarrow> real
    \<Rightarrow> (fault + DiscretizedTrajectory) option"
where
  "CombineTrajectory deps reference_line lon_trajectory lat_trajectory init_relative_time =
    (let s0 = Evaluate lon_trajectory 0 0 in
     if reference_line = [] then Some (Inl BackOfEmptyVector)
     else
       (let s_ref_max = pp_s (last reference_line);
            t_param_max = ParamLength lon_trajectory;
            s_param_max = ParamLength lat_trajectory
        in
        map_option Inr
          (combine_loop deps reference_line lon_trajectory lat_trajectory init_relative_time
             s0 s_ref_max 0 [])))"

section \<open>The collaborators of Plan\<close>

text \<open>
  Modelled from the spec: the class \<^verbatim>\<open>TrajectoryEvaluator\<close> is defined outside this file.
  The spec describes it as a best-first sequence of candidate pairs, each with a
  longitudinal curve, a lateral curve, a total cost and its cost components, read with
  \<^verbatim>\<open>has_more\<close>, \<^verbatim>\<open>top_cost\<close>, \<^verbatim>\<open>top_cost_components\<close> and consumed with \<^verbatim>\<open>pop_next\<close>.
  The sequence is the list of the candidates that remain, the best one first. The
  planner reads the top only after \<^verbatim>\<open>has_more_trajectory_pairs\<close> has answered true.
\<close>

record TrajectoryPairCandidate =
  lon_curve :: Curve1d
  lat_curve :: Curve1d
  total_cost :: real
  cost_components :: "real list"

type_synonym TrajectoryEvaluator = "TrajectoryPairCandidate list"

definition has_more_trajectory_pairs :: "TrajectoryEvaluator \<Rightarrow> bool" where
  "has_more_trajectory_pairs ev = (ev \<noteq> [])"

definition top_trajectory_pair_cost :: "TrajectoryEvaluator \<Rightarrow> real" where
  "top_trajectory_pair_cost ev = total_cost (hd ev)"

definition top_trajectory_pair_component_cost :: "TrajectoryEvaluator \<Rightarrow> real list" where
  "top_trajectory_pair_component_cost ev = cost_components (hd ev)"

definition next_top_trajectory_pair ::
  "TrajectoryEvaluator \<Rightarrow> (Curve1d \<times> Curve1d) \<times> TrajectoryEvaluator" where
  "next_top_trajectory_pair ev = ((lon_curve (hd ev), lat_curve (hd ev)), tl ev)"

text \<open>
  Modelled from the spec: the class \<^verbatim>\<open>ReferenceLineInfo\<close> is defined outside this file; the
  spec calls it the holder of the result. \<^verbatim>\<open>SetTrajectory\<close>, \<^verbatim>\<open>SetCost\<close> and
  \<^verbatim>\<open>SetDrivable\<close> store their argument, \<^verbatim>\<open>PriorityCost()\<close> reads the priority of the
  reference line.
\<close>

record ReferenceLineInfo =
  trajectory :: DiscretizedTrajectory
  cost :: real
  is_drivable :: bool
  PriorityCost :: real

definition SetTrajectory :: "DiscretizedTrajectory \<Rightarrow> ReferenceLineInfo \<Rightarrow> ReferenceLineInfo" where
  "SetTrajectory t info = info\<lparr>trajectory := t\<rparr>"

definition SetCost :: "real \<Rightarrow> ReferenceLineInfo \<Rightarrow> ReferenceLineInfo" where
  "SetCost c info = info\<lparr>cost := c\<rparr>"

definition SetDrivable :: "bool \<Rightarrow> ReferenceLineInfo \<Rightarrow> ReferenceLineInfo" where
  "SetDrivable b info = info\<lparr>is_drivable := b\<rparr>"

text \<open>\<^verbatim>\<open>apollo::common::Status\<close>: an error code and a message.\<close>

datatype ErrorCode = OK | PLANNING_ERROR

record Status =
  code :: ErrorCode
  error_message :: string


section \<open>The selection loop of Plan\<close>

text \<open>
  The variables the loop of step 7 works on: the evaluator, the three counters of
  rejections (\<^verbatim>\<open>std::size_t\<close>), the number of selected trajectories (\<^verbatim>\<open>int\<close>), the
  reference-line result and the obstacles of the frame.
\<close>

record plan_state =
  trajectory_evaluator :: TrajectoryEvaluator
  constraint_failure_count :: "64 word"
  collision_failure_count :: "64 word"
  combined_constraint_failure_count :: "64 word"
  num_lattice_traj :: "32 word"
  reference_line_info :: ReferenceLineInfo
  frame_obstacles :: "Obstacle list"

text \<open>How one round of the loop ends: \<^verbatim>\<open>continue\<close> or \<^verbatim>\<open>break\<close>.\<close>

datatype loop_exit = Continue plan_state | Break plan_state

text \<open>
  The rest of a round once a pair has passed the three filters (from
  \<^verbatim>\<open>SetTrajectory\<close> to \<^verbatim>\<open>break\<close>). The trajectory, the cost and the drivable flag are
  set first. The auto-tuning block changes nothing that is read afterwards
  (\<^verbatim>\<open>tuning_success\<close> and the future-trajectory cost are dropped). Then come the log
  statements: the longitudinal curve is cast to \<^verbatim>\<open>LatticeTrajectory1d\<close> and dereferenced
  whatever the cast gave, and the first four cost components are indexed unchecked, both
  in \<^verbatim>\<open>AINFO\<close> statements; the first ten points of the trajectory are indexed unchecked in
  an \<^verbatim>\<open>ADEBUG\<close> statement.
\<close>

definition plan_selected ::
  "collaborators \<Rightarrow> plan_state \<Rightarrow> Curve1d \<times> Curve1d \<Rightarrow> real \<Rightarrow> real list
    \<Rightarrow> DiscretizedTrajectory \<Rightarrow> fault \<times> plan_state + loop_exit"
where
  "plan_selected deps st0 trajectory_pair trajectory_pair_cost trajectory_pair_cost_components
      combined_trajectory =
    (let info = reference_line_info st0;
         info = SetTrajectory combined_trajectory info;
         info = SetCost (double_add (PriorityCost info) trajectory_pair_cost) info;
         info = SetDrivable True info;
         st = st0\<lparr> num_lattice_traj := num_lattice_traj st0 + 1, reference_line_info := info \<rparr>
     in case fst trajectory_pair of
          OtherCurve1d _ _ \<Rightarrow> Inl (NullPointerDereference, st)
        | LatticeTrajectory1d _ _ _ _ _ \<Rightarrow>
            if length trajectory_pair_cost_components < 4
            then Inl (CostComponentOutOfRange, st)
            else if debug_logging deps \<and> length combined_trajectory < 10
            then Inl (TrajectoryPointOutOfRange, st)
            else Inr (Break st))"

text \<open>One round of \<^verbatim>\<open>while (trajectory_evaluator.has_more_trajectory_pairs())\<close>.\<close>

definition plan_iteration ::
  "collaborators \<Rightarrow> PathPoint list \<Rightarrow> TrajectoryPoint \<Rightarrow> plan_state
    \<Rightarrow> (fault \<times> plan_state + loop_exit) option"
where
  "plan_iteration deps discretized_reference_line planning_init_point st0 =
    (let trajectory_pair_cost = top_trajectory_pair_cost (trajectory_evaluator st0);
         trajectory_pair_cost_components =
           top_trajectory_pair_component_cost (trajectory_evaluator st0);
         popped = next_top_trajectory_pair (trajectory_evaluator st0);
         trajectory_pair = fst popped;
         st = st0\<lparr> trajectory_evaluator := snd popped \<rparr>
     in if \<not> IsValidTrajectoryPair deps (snd trajectory_pair) (fst trajectory_pair) then
          Some (Inr (Continue
            (st\<lparr> constraint_failure_count := constraint_failure_count st + 1 \<rparr>)))
        else
          (case CombineTrajectory deps discretized_reference_line
                  (fst trajectory_pair) (snd trajectory_pair)
                  (relative_time planning_init_point) of
             None \<Rightarrow> None
           | Some (Inl f) \<Rightarrow> Some (Inl (f, st))
           | Some (Inr combined_trajectory) \<Rightarrow>
               if \<not> IsValidTrajectory deps combined_trajectory then
                 Some (Inr (Continue
                   (st\<lparr> combined_constraint_failure_count :=
                          combined_constraint_failure_count st + 1 \<rparr>)))
               else if InCollision deps (frame_obstacles st) combined_trajectory then
                 Some (Inr (Continue
                   (st\<lparr> collision_failure_count := collision_failure_count st + 1 \<rparr>)))
               else
                 Some (plan_selected deps st trajectory_pair trajectory_pair_cost
                         trajectory_pair_cost_components combined_trajectory)))"

function plan_loop ::
  "collaborators \<Rightarrow> PathPoint list \<Rightarrow> TrajectoryPoint \<Rightarrow> plan_state
    \<Rightarrow> (fault \<times> plan_state + plan_state) option"
where
  "plan_loop deps discretized_reference_line planning_init_point st =
    (if has_more_trajectory_pairs (trajectory_evaluator st) then
       (case plan_iteration deps discretized_reference_line planning_init_point st of
          None \<Rightarrow> None
        | Some (Inl f) \<Rightarrow> Some (Inl f)
        | Some (Inr (Continue st')) \<Rightarrow>
            plan_loop deps discretized_reference_line planning_init_point st'
        | Some (Inr (Break st')) \<Rightarrow> Some (Inr st'))
     else Some (Inr st))"
  by pat_completeness auto
termination
proof (relation "measure (\<lambda>(deps, ref, pip, st). length (trajectory_evaluator st))")
  show "wf (measure (\<lambda>(deps, ref, pip, st). length (trajectory_evaluator st)))"
    by simp
next
  fix deps ref pip st x2 b x1
  assume more: "has_more_trajectory_pairs (trajectory_evaluator st)"
    and it: "plan_iteration deps ref pip st = Some x2" "x2 = Inr b" "b = Continue x1"
  from it have "trajectory_evaluator x1 = tl (trajectory_evaluator st)"
    by (auto simp: plan_iteration_def plan_selected_def next_top_trajectory_pair_def Let_def
             split: if_splits option.splits sum.splits Curve1d.splits)
  with more show "((deps, ref, pip, x1), (deps, ref, pip, st))
      \<in> measure (\<lambda>(deps, ref, pip, st). length (trajectory_evaluator st))"
    by (cases "trajectory_evaluator st") (simp_all add: has_more_trajectory_pairs_def)
qed

section \<open>Plan\<close>



text \<open>
  Steps 1 to 6 of \<^verbatim>\<open>Plan\<close> call collaborators only (the conversion of the reference
  line, the matcher, the decider, the generator of the bundles, the constructor of the
  evaluator): the model starts from what they hand to step 7, the discretized reference
  line and the evaluator. The file has no test of the reference line anywhere.
  \<open>initial_state\<close> is the declaration of the variables of step 7.
\<close>

definition initial_state ::
  "TrajectoryEvaluator \<Rightarrow> ReferenceLineInfo \<Rightarrow> Obstacle list \<Rightarrow> plan_state" where
  "initial_state evaluator info obstacles =
    \<lparr> trajectory_evaluator = evaluator,
      constraint_failure_count = 0,
      collision_failure_count = 0,
      combined_constraint_failure_count = 0,
      num_lattice_traj = 0,
      reference_line_info = info,
      frame_obstacles = obstacles \<rparr>"


section \<open>The filters in the order of the specification\<close>

text \<open>
  The specification of the search: a popped pair goes through the 1D pre-filter, is
  combined, and the combined trajectory goes through the constraint check and then the
  collision check. \<open>filter_verdict\<close> follows these words and names the first filter that
  rejects the pair, or the combined trajectory when none does. Combining can also end in
  a fault or never return.
\<close>

datatype verdict =
  FailsPairCheck
| FailsTrajectoryCheck
| FailsCollisionCheck
| Survives DiscretizedTrajectory
| Faults fault
| Diverges

definition filter_verdict ::
  "collaborators \<Rightarrow> PathPoint list \<Rightarrow> TrajectoryPoint \<Rightarrow> Obstacle list
    \<Rightarrow> TrajectoryPairCandidate \<Rightarrow> verdict"
where
  "filter_verdict deps reference_line planning_init_point obstacles c =
    (if \<not> IsValidTrajectoryPair deps (lat_curve c) (lon_curve c) then FailsPairCheck
     else
       (case CombineTrajectory deps reference_line (lon_curve c) (lat_curve c)
               (relative_time planning_init_point) of
          None \<Rightarrow> Diverges
        | Some (Inl f) \<Rightarrow> Faults f
        | Some (Inr combined) \<Rightarrow>
            if \<not> IsValidTrajectory deps combined then FailsTrajectoryCheck
            else if InCollision deps obstacles combined then FailsCollisionCheck
            else Survives combined))"

fun is_rejection :: "verdict \<Rightarrow> bool" where
  "is_rejection FailsPairCheck = True"
| "is_rejection FailsTrajectoryCheck = True"
| "is_rejection FailsCollisionCheck = True"
| "is_rejection _ = False"


text \<open>The state with the counter of one rejection advanced.\<close>

fun count_rejection :: "verdict \<Rightarrow> plan_state \<Rightarrow> plan_state" where
  "count_rejection FailsPairCheck st =
     st\<lparr> constraint_failure_count := constraint_failure_count st + 1 \<rparr>"
| "count_rejection FailsTrajectoryCheck st =
     st\<lparr> combined_constraint_failure_count := combined_constraint_failure_count st + 1 \<rparr>"
| "count_rejection FailsCollisionCheck st =
     st\<lparr> collision_failure_count := collision_failure_count st + 1 \<rparr>"
| "count_rejection _ st = st"

text \<open>
  The state after the pairs with the verdicts \<open>vs\<close> have been popped and counted, with
  \<open>rest\<close> left in the evaluator.
\<close>

definition after_rejections ::
  "plan_state \<Rightarrow> verdict list \<Rightarrow> TrajectoryEvaluator \<Rightarrow> plan_state" where
  "after_rejections st vs rest =
    st\<lparr> trajectory_evaluator := rest,
        constraint_failure_count :=
          constraint_failure_count st + of_nat (count_list vs FailsPairCheck),
        combined_constraint_failure_count :=
          combined_constraint_failure_count st + of_nat (count_list vs FailsTrajectoryCheck),
        collision_failure_count :=
          collision_failure_count st + of_nat (count_list vs FailsCollisionCheck) \<rparr>"

text \<open>
  The state of a round that ended, the state the loop ends in (by returning or by running
  into a fault), the fault of a run if it has one, and a state with its three counters
  blanked.
\<close>

fun exit_state :: "loop_exit \<Rightarrow> plan_state" where
  "exit_state (Continue st) = st"
| "exit_state (Break st) = st"

fun state_reached :: "fault \<times> plan_state + plan_state \<Rightarrow> plan_state" where
  "state_reached (Inl (f, st)) = st"
| "state_reached (Inr st) = st"

fun fault_of :: "(fault \<times> plan_state + 'a) option \<Rightarrow> fault option" where
  "fault_of (Some (Inl (f, st))) = Some f"
| "fault_of _ = None"

definition forget_counters :: "plan_state \<Rightarrow> plan_state" where
  "forget_counters st =
    st\<lparr> constraint_failure_count := 0, collision_failure_count := 0,
        combined_constraint_failure_count := 0 \<rparr>"


text \<open>
  The time parameter of round \<open>k\<close> of the loop of \<^verbatim>\<open>CombineTrajectory\<close>: zero, then one
  resolution added per round, each sum a double. \<open>t_param_from\<close> starts anywhere.
\<close>

fun t_param_from :: "collaborators \<Rightarrow> real \<Rightarrow> nat \<Rightarrow> real" where
  "t_param_from deps t 0 = t"
| "t_param_from deps t (Suc k) =
     t_param_from deps (double_add t (trajectory_time_resolution deps)) k"

definition t_param_at :: "collaborators \<Rightarrow> nat \<Rightarrow> real" where
  "t_param_at deps k = t_param_from deps 0 k"

section \<open>Example inputs\<close>

text \<open>
  A straight reference line along the x axis, with the matcher and the conversion that
  belong to it, a speed limit for the two constraint checks and a collision test that
  compares positions at equal times. The horizon, the resolution and the setting of the
  logger are left open.
\<close>

definition straight_collaborators :: "real \<Rightarrow> real \<Rightarrow> bool \<Rightarrow> collaborators" where
  "straight_collaborators horizon resolution debug =
    \<lparr> planned_trajectory_time = horizon,
      trajectory_time_resolution = resolution,
      MatchToReferenceLine =
        (\<lambda>ref s. \<lparr> pp_x = s, pp_y = 0, pp_theta = 0, pp_kappa = 0, pp_dkappa = 0, pp_s = s \<rparr>),
      frenet_to_cartesian =
        (\<lambda>rs rx ry rtheta rkappa rdkappa sc dc.
           (rx, ry + fst dc, rtheta, rkappa, fst (snd sc), snd (snd sc))),
      IsValidTrajectoryPair = (\<lambda>lat lon. Evaluate lon 1 0 \<le> 10),
      IsValidTrajectory = list_all (\<lambda>p. tp_v p \<le> 5),
      InCollision =
        (\<lambda>obs traj. list_ex (\<lambda>ob. list_ex (\<lambda>q. list_ex (\<lambda>p.
            pp_x (path_point p) = pp_x (path_point q) \<and> relative_time p = relative_time q)
          traj) (predicted_trajectory ob)) obs),
      debug_logging = debug \<rparr>"

definition straight_line :: "real \<Rightarrow> PathPoint list" where
  "straight_line len =
    [\<lparr> pp_x = 0, pp_y = 0, pp_theta = 0, pp_kappa = 0, pp_dkappa = 0, pp_s = 0 \<rparr>,
     \<lparr> pp_x = len, pp_y = 0, pp_theta = 0, pp_kappa = 0, pp_dkappa = 0, pp_s = len \<rparr>]"


definition cruise :: "real \<Rightarrow> real \<Rightarrow> Curve1d" where
  "cruise start speed =
    LatticeTrajectory1d
      (\<lambda>order t. if order = 0 then start + speed * t else if order = 1 then speed else 0)
      8 (start + 8 * speed) speed 8"

definition plain_cruise :: "real \<Rightarrow> real \<Rightarrow> Curve1d" where
  "plain_cruise start speed =
    OtherCurve1d
      (\<lambda>order t. if order = 0 then start + speed * t else if order = 1 then speed else 0) 8"

definition drift :: Curve1d where
  "drift = OtherCurve1d (\<lambda>order s. if order = 0 then s else if order = 1 then 1 else 0) 10"

definition keep_lane :: Curve1d where
  "keep_lane = OtherCurve1d (\<lambda>order s. 0) 0"

definition candidate :: "Curve1d \<Rightarrow> real \<Rightarrow> TrajectoryPairCandidate" where
  "candidate lon c =
    \<lparr> lon_curve = lon, lat_curve = keep_lane, total_cost = c,
      cost_components = [c, 0, 0, 0] \<rparr>"

definition obstacle_at :: "real \<Rightarrow> real \<Rightarrow> Obstacle" where
  "obstacle_at pos time =
    \<lparr> obstacle_id = ''obstacle'',
      predicted_trajectory =
        [\<lparr> path_point = \<lparr> pp_x = pos, pp_y = 0, pp_theta = 0, pp_kappa = 0,
                           pp_dkappa = 0, pp_s = 0 \<rparr>,
           tp_v = 0, tp_a = 0, relative_time = time \<rparr>] \<rparr>"

definition fresh_info :: ReferenceLineInfo where
  "fresh_info = \<lparr> trajectory = [], cost = 0, is_drivable = False, PriorityCost = 7 \<rparr>"

definition start_point :: TrajectoryPoint where
  "start_point =
    \<lparr> path_point = \<lparr> pp_x = 0, pp_y = 0, pp_theta = 0, pp_kappa = 0, pp_dkappa = 0, pp_s = 0 \<rparr>,
      tp_v = 1, tp_a = 0, relative_time = 0 \<rparr>"


text \<open>
  A horizon of 1.25 s in steps of an eighth (ten rounds, every sum exact), a line of
  100 m and one obstacle that is at 0.375 m after 0.125 s. Of the five pairs, the first
  is too fast for the pre-filter, the second too fast for the check of the combined
  trajectory, the third meets the obstacle, the fourth is acceptable, the fifth as well.
  \<open>town\<close> prints no debug lines, \<open>loud_town\<close> does.
\<close>

definition town :: collaborators where
  "town = straight_collaborators (5 / 4) (1 / 8) False"

definition loud_town :: collaborators where
  "loud_town = straight_collaborators (5 / 4) (1 / 8) True"

definition five_pairs :: TrajectoryEvaluator where
  "five_pairs =
    [candidate (cruise 0 20) 1, candidate (cruise 0 7) 2, candidate (cruise 0 3) 3,
     candidate (cruise 0 1) 4, candidate (cruise 0 2) 5]"

definition traffic :: "Obstacle list" where
  "traffic = [obstacle_at (3 / 8) (1 / 8)]"


section \<open>Properties of CombineTrajectory\<close>

lemmas double_eval =
  double_add_def double_sub_def round_double_def round_to_quantum_def quantum_def binade_def
  exp_lt1.simps exp_ge1.simps round_half_even_def

lemma combine_loop_points:
  assumes "combine_loop deps ref lon lat rt s0 smax t acc = Some res"
  shows "\<exists>pts. res = acc @ pts \<and>
           (\<forall>k<length pts.
              pts ! k = combined_point deps ref lon lat rt s0 (t_param_from deps t k))"
proof (rule combine_loop.raw_induct
    [where P = "\<lambda>deps ref lon lat rt s0 smax t acc res. \<exists>pts. res = acc @ pts \<and>
           (\<forall>k<length pts.
              pts ! k = combined_point deps ref lon lat rt s0 (t_param_from deps t k))",
     OF _ assms])
  fix loop deps ref lon lat rt s0 smax t acc res
  assume 1: "\<And>deps ref lon lat rt s0 smax t acc res.
        loop deps ref lon lat rt s0 smax t acc = Some res \<Longrightarrow>
        \<exists>pts. res = acc @ pts \<and>
           (\<forall>k<length pts.
              pts ! k = combined_point deps ref lon lat rt s0 (t_param_from deps t k))"
      "(if t < planned_trajectory_time deps
      then let s = Evaluate lon 0 t
           in if smax < s then Some acc
              else loop deps ref lon lat rt s0 smax
                    (double_add t (trajectory_time_resolution deps))
                    (acc @ [combined_point deps ref lon lat rt s0 t])
      else Some acc) = Some res"
  let ?t' = "double_add t (trajectory_time_resolution deps)"
  let ?p = "combined_point deps ref lon lat rt s0 t"
  show "\<exists>pts. res = acc @ pts \<and>
           (\<forall>k<length pts.
              pts ! k = combined_point deps ref lon lat rt s0 (t_param_from deps t k))"
  proof (cases "t < planned_trajectory_time deps \<and> \<not> smax < Evaluate lon 0 t")
    case False
    with 1(2) have "res = acc @ []" by (auto simp: Let_def split: if_splits)
    then show ?thesis by (intro exI[of _ "[]"]) simp
  next
    case True
    with 1(2) have "loop deps ref lon lat rt s0 smax ?t' (acc @ [?p]) = Some res"
      by (simp add: Let_def)
    from 1(1)[OF this] obtain pts where
      res: "res = (acc @ [?p]) @ pts"
      and pt: "\<forall>k<length pts. pts ! k = combined_point deps ref lon lat rt s0
                  (t_param_from deps ?t' k)"
      by blast
    have "\<forall>k<length (?p # pts). (?p # pts) ! k
            = combined_point deps ref lon lat rt s0 (t_param_from deps t k)"
    proof (intro allI impI)
      fix k assume "k < length (?p # pts)"
      then show "(?p # pts) ! k = combined_point deps ref lon lat rt s0 (t_param_from deps t k)"
        using pt by (cases k) simp_all
    qed
    with res show ?thesis by (intro exI[of _ "?p # pts"]) simp
  qed
qed

lemma CombineTrajectory_points:
  assumes "CombineTrajectory deps ref lon lat rt = Some (Inr pts)" and "k < length pts"
  shows "pts ! k = combined_point deps ref lon lat rt (Evaluate lon 0 0) (t_param_at deps k)"
proof -
  from assms(1) have "combine_loop deps ref lon lat rt (Evaluate lon 0 0) (pp_s (last ref)) 0 []
      = Some pts"
    by (auto simp: CombineTrajectory_def Let_def split: if_splits)
  from combine_loop_points[OF this] assms(2) show ?thesis by (simp add: t_param_at_def)
qed

lemma relative_time_combined_point:
  "relative_time (combined_point deps ref lon lat rt s0 t) = double_add t rt"
  by (simp add: combined_point_def Let_def split: prod.splits)




lemmas example_defs =
  town_def loud_town_def straight_collaborators_def straight_line_def cruise_def
  plain_cruise_def keep_lane_def candidate_def traffic_def obstacle_at_def start_point_def
  Let_def






text \<open>
  C4. Point \<open>k\<close> of a trajectory that \<^verbatim>\<open>CombineTrajectory\<close> returns is built at the time
  parameter \<open>t\<close> of round \<open>k\<close>, and the three lateral values that go into the conversion
  are those of the lateral curve at \<open>s - s0\<close> (a difference of doubles), where \<open>s\<close> is the
  longitudinal position at \<open>t\<close> and \<open>s0\<close> the longitudinal position at time 0.
\<close>

theorem CombineTrajectory_lateral_parameter:
  assumes "CombineTrajectory deps reference_line lon lat rt = Some (Inr pts)"
    and "k < length pts"
  shows "pts ! k =
    (let t = t_param_at deps k;
         s = Evaluate lon 0 t;
         s0 = Evaluate lon 0 0;
         m = MatchToReferenceLine deps reference_line s
     in case frenet_to_cartesian deps (pp_s m) (pp_x m) (pp_y m) (pp_theta m) (pp_kappa m)
               (pp_dkappa m)
               (pp_s m, Evaluate lon 1 t, Evaluate lon 2 t)
               (Evaluate lat 0 (double_sub s s0), Evaluate lat 1 (double_sub s s0),
                Evaluate lat 2 (double_sub s s0)) of
          (x, y, theta, kappa, v, a) \<Rightarrow>
            \<lparr> path_point = \<lparr> pp_x = x, pp_y = y, pp_theta = theta, pp_kappa = kappa,
                             pp_dkappa = 0, pp_s = 0 \<rparr>,
              tp_v = v, tp_a = a, relative_time = double_add t rt \<rparr>)"
  using CombineTrajectory_points[OF assms] by (simp add: combined_point_def Let_def)

text \<open>
  C6. The first point of a trajectory that \<^verbatim>\<open>CombineTrajectory\<close> returns, when there is
  one, has the initial relative time given to \<^verbatim>\<open>CombineTrajectory\<close>.
\<close>

theorem CombineTrajectory_first_relative_time:
  assumes "CombineTrajectory deps reference_line lon lat init_relative_time = Some (Inr pts)"
    and "pts \<noteq> []"
  shows "relative_time (hd pts) = init_relative_time"
proof -
  from assms(2) have "0 < length pts" by simp
  from CombineTrajectory_points[OF assms(1) this]
  show ?thesis using assms(2)
    by (simp add: relative_time_combined_point hd_conv_nth t_param_at_def double_add_def)
qed

lemma drifting_run:
  "\<exists>pts. CombineTrajectory (straight_collaborators (1 / 2) (1 / 8) False) (straight_line 100)
      (cruise 5 1) drift 2 = Some (Inr pts) \<and> length pts = 4"
  by (simp add: CombineTrajectory_def combine_loop.simps example_defs drift_def double_eval)

theorem CombineTrajectory_lateral_parameter_witness:
  "map_option (map_sum id length)
     (CombineTrajectory (straight_collaborators (1 / 2) (1 / 8) False) (straight_line 100)
        (cruise 5 1) drift 2) = Some (Inr 4)
   \<and> map_option (map_sum id (\<lambda>pts. pp_y (path_point (pts ! 3))))
     (CombineTrajectory (straight_collaborators (1 / 2) (1 / 8) False) (straight_line 100)
        (cruise 5 1) drift 2) = Some (Inr (3 / 8))"
proof -
  let ?deps = "straight_collaborators (1 / 2) (1 / 8) False"
  obtain pts where run: "CombineTrajectory ?deps (straight_line 100) (cruise 5 1) drift 2
      = Some (Inr pts)" and len: "length pts = 4"
    using drifting_run by blast
  from len have k: "3 < length pts" by simp
  have t: "t_param_at ?deps 3 = 3 / 8"
    by (simp add: t_param_at_def eval_nat_numeral straight_collaborators_def double_eval)
  from CombineTrajectory_lateral_parameter[OF run k]
  have "pp_y (path_point (pts ! 3)) = 3 / 8"
    unfolding t by (simp add: straight_collaborators_def cruise_def drift_def double_eval)
  with run len show ?thesis by simp
qed

theorem CombineTrajectory_first_relative_time_witness:
  "map_option (map_sum id (\<lambda>pts. pts \<noteq> [] \<and> relative_time (hd pts) = 2))
     (CombineTrajectory (straight_collaborators (1 / 2) (1 / 8) False) (straight_line 100)
        (cruise 5 1) drift 2) = Some (Inr True)"
proof -
  let ?deps = "straight_collaborators (1 / 2) (1 / 8) False"
  obtain pts where run: "CombineTrajectory ?deps (straight_line 100) (cruise 5 1) drift 2
      = Some (Inr pts)" and len: "length pts = 4"
    using drifting_run by blast
  from len have ne: "pts \<noteq> []" by auto
  from CombineTrajectory_first_relative_time[OF run ne] run ne
  show ?thesis by simp
qed

section \<open>Properties of the selection loop\<close>

lemma plan_loop_empty:
  "trajectory_evaluator st = [] \<Longrightarrow> plan_loop deps ref pip st = Some (Inr st)"
  by (simp add: has_more_trajectory_pairs_def)

lemma plan_loop_step:
  "trajectory_evaluator st \<noteq> [] \<Longrightarrow>
   plan_loop deps ref pip st =
     (case plan_iteration deps ref pip st of
        None \<Rightarrow> None
      | Some (Inl f) \<Rightarrow> Some (Inl f)
      | Some (Inr (Continue st')) \<Rightarrow> plan_loop deps ref pip st'
      | Some (Inr (Break st')) \<Rightarrow> Some (Inr st'))"
  by (simp add: has_more_trajectory_pairs_def)

declare plan_loop.simps [simp del]

text \<open>One round of the loop does what the verdict of the popped pair says.\<close>

lemma plan_iteration_verdict:
  assumes "trajectory_evaluator st = c # rest"
  shows "plan_iteration deps ref pip st =
    (case filter_verdict deps ref pip (frame_obstacles st) c of
       Survives combined \<Rightarrow>
         Some (plan_selected deps (st\<lparr>trajectory_evaluator := rest\<rparr>)
                 (lon_curve c, lat_curve c) (total_cost c) (cost_components c) combined)
     | Faults f \<Rightarrow> Some (Inl (f, st\<lparr>trajectory_evaluator := rest\<rparr>))
     | Diverges \<Rightarrow> None
     | v \<Rightarrow> Some (Inr (Continue (count_rejection v (st\<lparr>trajectory_evaluator := rest\<rparr>)))))"
  using assms
  by (simp add: plan_iteration_def filter_verdict_def top_trajectory_pair_cost_def
        top_trajectory_pair_component_cost_def next_top_trajectory_pair_def Let_def
      split: option.splits sum.splits)

lemma plan_iteration_rejection:
  assumes "trajectory_evaluator st = c # rest"
    and "is_rejection (filter_verdict deps ref pip (frame_obstacles st) c)"
  shows "plan_iteration deps ref pip st =
    Some (Inr (Continue (count_rejection (filter_verdict deps ref pip (frame_obstacles st) c)
                           (st\<lparr>trajectory_evaluator := rest\<rparr>))))"
  using assms(2) unfolding plan_iteration_verdict[OF assms(1)]
  by (cases "filter_verdict deps ref pip (frame_obstacles st) c") simp_all

lemma plan_loop_continues:
  assumes "trajectory_evaluator st = c # rest"
    and "is_rejection (filter_verdict deps ref pip (frame_obstacles st) c)"
  shows "plan_loop deps ref pip st =
    plan_loop deps ref pip
      (count_rejection (filter_verdict deps ref pip (frame_obstacles st) c)
         (st\<lparr>trajectory_evaluator := rest\<rparr>))"
  using assms(1) by (simp add: plan_loop_step plan_iteration_rejection[OF assms])

lemma after_rejections_Cons:
  assumes "is_rejection v"
  shows "after_rejections (count_rejection v (st\<lparr>trajectory_evaluator := r\<rparr>)) vs rest
       = after_rejections st (v # vs) rest"
  using assms by (cases v) (simp_all add: after_rejections_def algebra_simps)

lemma frame_obstacles_count_rejection [simp]:
  "frame_obstacles (count_rejection v st) = frame_obstacles st"
  by (cases v) simp_all

lemma plan_loop_rejected_prefix:
  assumes "trajectory_evaluator st = pre @ rest"
    and "\<forall>p\<in>set pre. is_rejection (filter_verdict deps ref pip (frame_obstacles st) p)"
  shows "plan_loop deps ref pip st =
         plan_loop deps ref pip
           (after_rejections st (map (filter_verdict deps ref pip (frame_obstacles st)) pre) rest)"
  using assms
proof (induction pre arbitrary: st)
  case Nil
  then have "after_rejections st [] rest = st"
    by (simp add: after_rejections_def)
  then show ?case by simp
next
  case (Cons p pre)
  let ?v = "filter_verdict deps ref pip (frame_obstacles st) p"
  let ?st = "count_rejection ?v (st\<lparr>trajectory_evaluator := pre @ rest\<rparr>)"
  from Cons.prems have ev: "trajectory_evaluator st = p # (pre @ rest)" and v: "is_rejection ?v"
    by simp_all
  have ev': "trajectory_evaluator ?st = pre @ rest"
    by (cases ?v) simp_all
  have obs: "frame_obstacles ?st = frame_obstacles st" by simp
  have "plan_loop deps ref pip st = plan_loop deps ref pip ?st"
    by (rule plan_loop_continues[OF ev v])
  also have "\<dots> = plan_loop deps ref pip
      (after_rejections ?st (map (filter_verdict deps ref pip (frame_obstacles ?st)) pre) rest)"
    using Cons.prems(2) by (intro Cons.IH[OF ev']) (simp add: obs)
  also have "\<dots> = plan_loop deps ref pip
      (after_rejections st (map (filter_verdict deps ref pip (frame_obstacles st)) (p # pre)) rest)"
    unfolding obs by (simp add: after_rejections_Cons[OF v])
  finally show ?case .
qed

lemma frame_obstacles_after_rejections [simp]:
  "frame_obstacles (after_rejections st vs rest) = frame_obstacles st"
  by (simp add: after_rejections_def)

lemma trajectory_evaluator_after_rejections [simp]:
  "trajectory_evaluator (after_rejections st vs rest) = rest"
  by (simp add: after_rejections_def)


text \<open>The state after the selection of a pair, and how the round of a selected pair ends.\<close>

lemma plan_selected_cases:
  "plan_selected deps st pair c comps combined =
    (let st' = st\<lparr> num_lattice_traj := num_lattice_traj st + 1,
                   reference_line_info := (reference_line_info st)
                     \<lparr> trajectory := combined,
                       cost := double_add (PriorityCost (reference_line_info st)) c,
                       is_drivable := True \<rparr> \<rparr>
     in if \<not> is_LatticeTrajectory1d (fst pair) then Inl (NullPointerDereference, st')
        else if length comps < 4 then Inl (CostComponentOutOfRange, st')
        else if debug_logging deps \<and> length combined < 10
        then Inl (TrajectoryPointOutOfRange, st')
        else Inr (Break st'))"
  by (cases "fst pair")
     (simp_all add: plan_selected_def SetTrajectory_def SetCost_def SetDrivable_def Let_def)

lemma plan_loop_first_survivor:
  assumes "trajectory_evaluator st = pre @ c # post"
    and "\<forall>p\<in>set pre. is_rejection (filter_verdict deps ref pip (frame_obstacles st) p)"
    and "filter_verdict deps ref pip (frame_obstacles st) c = Survives combined"
  shows "plan_loop deps ref pip st =
    Some (map_sum id exit_state
      (plan_selected deps
         (after_rejections st (map (filter_verdict deps ref pip (frame_obstacles st)) pre) post)
         (lon_curve c, lat_curve c) (total_cost c) (cost_components c) combined))"
proof -
  let ?vs = "map (filter_verdict deps ref pip (frame_obstacles st)) pre"
  let ?st = "after_rejections st ?vs (c # post)"
  have same: "?st\<lparr>trajectory_evaluator := post\<rparr> = after_rejections st ?vs post"
    by (simp add: after_rejections_def)
  have "plan_loop deps ref pip st = plan_loop deps ref pip ?st"
    by (rule plan_loop_rejected_prefix[OF assms(1,2)])
  also have "\<dots> = Some (map_sum id exit_state
      (plan_selected deps (after_rejections st ?vs post)
         (lon_curve c, lat_curve c) (total_cost c) (cost_components c) combined))"
    using assms(3)
    by (simp add: plan_loop_step plan_iteration_verdict[of ?st c post] same plan_selected_cases
          Let_def)
  finally show ?thesis .
qed


text \<open>
  With \<open>c\<close> the first pair to pass the filters, the loop ends in the state where \<open>c\<close> is
  selected, by returning it or by a fault of the log statements reached in it.
\<close>

lemma plan_loop_selects:
  assumes "trajectory_evaluator st = pre @ c # post"
    and "\<forall>p\<in>set pre. is_rejection (filter_verdict deps ref pip (frame_obstacles st) p)"
    and "filter_verdict deps ref pip (frame_obstacles st) c = Survives combined"
  shows "\<exists>r. plan_loop deps ref pip st = Some r
    \<and> state_reached r =
        (after_rejections st (map (filter_verdict deps ref pip (frame_obstacles st)) pre) post)
          \<lparr> num_lattice_traj := num_lattice_traj st + 1,
            reference_line_info := (reference_line_info st)
              \<lparr> trajectory := combined,
                cost := double_add (PriorityCost (reference_line_info st)) (total_cost c),
                is_drivable := True \<rparr> \<rparr>
    \<and> r = (if \<not> is_LatticeTrajectory1d (lon_curve c)
           then Inl (NullPointerDereference, state_reached r)
           else if length (cost_components c) < 4
           then Inl (CostComponentOutOfRange, state_reached r)
           else if debug_logging deps \<and> length combined < 10
           then Inl (TrajectoryPointOutOfRange, state_reached r)
           else Inr (state_reached r))"
  unfolding plan_loop_first_survivor[OF assms]
  by (simp add: plan_selected_cases after_rejections_def Let_def)

section \<open>The example run\<close>

lemmas verdict_eval =
  filter_verdict_def CombineTrajectory_def combine_loop.simps combined_point_def
  example_defs double_eval

lemma too_fast_for_pair_check:
  "filter_verdict town (straight_line 100) start_point traffic (candidate (cruise 0 20) 1)
     = FailsPairCheck"
  by (simp add: filter_verdict_def example_defs)

lemma too_fast_for_trajectory_check:
  "filter_verdict town (straight_line 100) start_point traffic (candidate (cruise 0 7) 2)
     = FailsTrajectoryCheck"
  by (simp add: verdict_eval)

lemma meets_obstacle:
  "filter_verdict town (straight_line 100) start_point traffic (candidate (cruise 0 3) 3)
     = FailsCollisionCheck"
  by (simp add: verdict_eval)

lemma acceptable:
  "\<exists>combined. filter_verdict town (straight_line 100) start_point traffic
       (candidate (cruise 0 1) 4) = Survives combined \<and> length combined = 10"
  by (simp add: verdict_eval)



lemma acceptable_but_plain:
  "\<exists>combined. filter_verdict town (straight_line 100) start_point traffic
       (candidate (plain_cruise 0 1) 4) = Survives combined \<and> length combined = 10"
  by (simp add: verdict_eval)



lemma five_pairs_split:
  "trajectory_evaluator (initial_state five_pairs fresh_info traffic)
     = [candidate (cruise 0 20) 1, candidate (cruise 0 7) 2, candidate (cruise 0 3) 3]
       @ candidate (cruise 0 1) 4 # [candidate (cruise 0 2) 5]"
  by (simp add: initial_state_def five_pairs_def)

lemma initial_state_obstacles:
  "frame_obstacles (initial_state ev info obs) = obs"
  by (simp add: initial_state_def)

lemma five_pairs_rejected:
  "\<forall>p\<in>set [candidate (cruise 0 20) 1, candidate (cruise 0 7) 2, candidate (cruise 0 3) 3].
     is_rejection (filter_verdict town (straight_line 100) start_point traffic p)"
  by (simp add: too_fast_for_pair_check too_fast_for_trajectory_check meets_obstacle)

lemma candidate_fields:
  "lon_curve (candidate lon c) = lon" "lat_curve (candidate lon c) = keep_lane"
  "total_cost (candidate lon c) = c" "length (cost_components (candidate lon c)) = 4"
  by (simp_all add: candidate_def)

section \<open>Selection of the first acceptable pair\<close>

text \<open>
  C1. When the evaluator holds the pairs \<open>pre\<close>, each rejected by one of the three
  filters taken in the order pre-filter, combination, constraint check, collision check,
  and then a pair \<open>c\<close> that passes them all, the loop ends in a state where the
  combination of \<open>c\<close> is installed as the trajectory and marked drivable, the pairs after
  \<open>c\<close> are still in the evaluator, unexamined, and each pair of \<open>pre\<close> is counted under
  the first filter that rejected it. The loop ends there by returning or, after the
  installation, by a fault of the log statements.
\<close>

theorem plan_loop_first_acceptable_wins:
  assumes "trajectory_evaluator st = pre @ c # post"
    and "\<forall>p\<in>set pre. is_rejection (filter_verdict deps ref pip (frame_obstacles st) p)"
    and "filter_verdict deps ref pip (frame_obstacles st) c = Survives combined"
  shows "\<exists>r. plan_loop deps ref pip st = Some r
    \<and> trajectory (reference_line_info (state_reached r)) = combined
    \<and> CombineTrajectory deps ref (lon_curve c) (lat_curve c) (relative_time pip)
        = Some (Inr combined)
    \<and> is_drivable (reference_line_info (state_reached r))
    \<and> trajectory_evaluator (state_reached r) = post
    \<and> num_lattice_traj (state_reached r) = num_lattice_traj st + 1
    \<and> constraint_failure_count (state_reached r) = constraint_failure_count st
        + of_nat (count_list (map (filter_verdict deps ref pip (frame_obstacles st)) pre)
                    FailsPairCheck)
    \<and> combined_constraint_failure_count (state_reached r)
        = combined_constraint_failure_count st
        + of_nat (count_list (map (filter_verdict deps ref pip (frame_obstacles st)) pre)
                    FailsTrajectoryCheck)
    \<and> collision_failure_count (state_reached r) = collision_failure_count st
        + of_nat (count_list (map (filter_verdict deps ref pip (frame_obstacles st)) pre)
                    FailsCollisionCheck)"
proof -
  have combine: "CombineTrajectory deps ref (lon_curve c) (lat_curve c) (relative_time pip)
        = Some (Inr combined)"
    using assms(3)
    by (auto simp: filter_verdict_def split: if_splits option.splits sum.splits)
  from plan_loop_selects[OF assms] obtain r where
    run: "plan_loop deps ref pip st = Some r"
    and reached: "state_reached r =
        (after_rejections st (map (filter_verdict deps ref pip (frame_obstacles st)) pre) post)
          \<lparr> num_lattice_traj := num_lattice_traj st + 1,
            reference_line_info := (reference_line_info st)
              \<lparr> trajectory := combined,
                cost := double_add (PriorityCost (reference_line_info st)) (total_cost c),
                is_drivable := True \<rparr> \<rparr>"
    by blast
  show ?thesis
    unfolding run by (intro exI[of _ r]) (simp add: reached combine after_rejections_def)
qed

theorem plan_loop_first_acceptable_wins_witness:
  "map_option (\<lambda>r.
       (map total_cost (trajectory_evaluator (state_reached r)),
        length (trajectory (reference_line_info (state_reached r))),
        is_drivable (reference_line_info (state_reached r)),
        num_lattice_traj (state_reached r),
        constraint_failure_count (state_reached r),
        combined_constraint_failure_count (state_reached r),
        collision_failure_count (state_reached r)))
     (plan_loop town (straight_line 100) start_point
        (initial_state five_pairs fresh_info traffic))
   = Some ([5], 10, True, 1, 1, 1, 1)"
proof -
  let ?st = "initial_state five_pairs fresh_info traffic"
  obtain combined where
    surv: "filter_verdict town (straight_line 100) start_point traffic
             (candidate (cruise 0 1) 4) = Survives combined"
    and len: "length combined = 10"
    using acceptable by blast
  from plan_loop_first_acceptable_wins
    [of ?st _ _ _ town "straight_line 100" start_point combined, OF five_pairs_split]
    five_pairs_rejected surv len
  show ?thesis
    by (auto simp: candidate_fields initial_state_obstacles too_fast_for_pair_check
          too_fast_for_trajectory_check meets_obstacle initial_state_def)
qed

text \<open>
  C7. The cost recorded with the selected pair is the priority cost of the reference
  line plus (a sum of doubles) the total cost that \<^verbatim>\<open>top_trajectory_pair_cost\<close> reads
  while the pair is still on top of the evaluator; the priority cost itself stays as it
  was.
\<close>

theorem plan_loop_recorded_cost:
  assumes "trajectory_evaluator st = pre @ c # post"
    and "\<forall>p\<in>set pre. is_rejection (filter_verdict deps ref pip (frame_obstacles st) p)"
    and "filter_verdict deps ref pip (frame_obstacles st) c = Survives combined"
  shows "\<exists>r. plan_loop deps ref pip st = Some r
    \<and> cost (reference_line_info (state_reached r))
        = double_add (PriorityCost (reference_line_info st))
            (top_trajectory_pair_cost (c # post))
    \<and> top_trajectory_pair_cost (c # post) = total_cost c
    \<and> PriorityCost (reference_line_info (state_reached r))
        = PriorityCost (reference_line_info st)"
proof -
  from plan_loop_selects[OF assms] obtain r where
    run: "plan_loop deps ref pip st = Some r"
    and reached: "state_reached r =
        (after_rejections st (map (filter_verdict deps ref pip (frame_obstacles st)) pre) post)
          \<lparr> num_lattice_traj := num_lattice_traj st + 1,
            reference_line_info := (reference_line_info st)
              \<lparr> trajectory := combined,
                cost := double_add (PriorityCost (reference_line_info st)) (total_cost c),
                is_drivable := True \<rparr> \<rparr>"
    by blast
  show ?thesis
    unfolding run
    by (intro exI[of _ r]) (simp add: reached after_rejections_def top_trajectory_pair_cost_def)
qed

theorem plan_loop_recorded_cost_witness:
  "map_option (\<lambda>r. cost (reference_line_info (state_reached r)))
     (plan_loop town (straight_line 100) start_point
        (initial_state five_pairs fresh_info traffic))
   = Some (7 + 4)"
proof -
  let ?st = "initial_state five_pairs fresh_info traffic"
  obtain combined where
    surv: "filter_verdict town (straight_line 100) start_point traffic
             (candidate (cruise 0 1) 4) = Survives combined"
    using acceptable by blast
  have sum: "double_add 7 4 = 11" by (simp add: double_eval)
  from plan_loop_recorded_cost
    [of ?st _ _ _ town "straight_line 100" start_point combined, OF five_pairs_split]
    five_pairs_rejected surv
  show ?thesis
    by (auto simp: candidate_fields initial_state_obstacles initial_state_def fresh_info_def sum)
qed

lemma CombineTrajectory_fault:
  "CombineTrajectory deps ref lon lat rt = Some (Inl f) \<Longrightarrow> f = BackOfEmptyVector \<and> ref = []"
  by (auto simp: CombineTrajectory_def Let_def split: if_splits)

lemma filter_verdict_fault:
  "filter_verdict deps ref pip obs c = Faults f \<Longrightarrow> f = BackOfEmptyVector \<and> ref = []"
  by (auto simp: filter_verdict_def split: if_splits option.splits sum.splits
           dest: CombineTrajectory_fault)

lemma plan_loop_lattice_no_null:
  assumes "\<forall>p\<in>set (trajectory_evaluator st). is_LatticeTrajectory1d (lon_curve p)"
  shows "fault_of (plan_loop deps ref pip st) \<noteq> Some NullPointerDereference"
  using assms
proof (induction "trajectory_evaluator st" arbitrary: st)
  case Nil
  then show ?case by (simp add: plan_loop_empty)
next
  case (Cons c rest)
  from Cons.hyps(2) have ev: "trajectory_evaluator st = c # rest" by simp
  let ?v = "filter_verdict deps ref pip (frame_obstacles st) c"
  let ?st = "count_rejection ?v (st\<lparr>trajectory_evaluator := rest\<rparr>)"
  have lat: "is_LatticeTrajectory1d (lon_curve c)"
    using Cons.prems ev by simp
  have ev': "trajectory_evaluator ?st = rest" by (cases ?v) simp_all
  have IH: "fault_of (plan_loop deps ref pip ?st) \<noteq> Some NullPointerDereference"
    using Cons.prems ev by (intro Cons.hyps(1)) (simp_all add: ev')
  show ?case
  proof (cases ?v)
    case (Survives combined)
    then show ?thesis
      using lat ev
      by (simp add: plan_loop_step plan_iteration_verdict[OF ev] plan_selected_cases Let_def)
  next
    case (Faults f)
    with filter_verdict_fault[OF Faults] show ?thesis
      using ev by (simp add: plan_loop_step plan_iteration_verdict[OF ev])
  next
    case Diverges
    then show ?thesis
      using ev by (simp add: plan_loop_step plan_iteration_verdict[OF ev])
  qed (use IH ev in \<open>simp_all add: plan_loop_step plan_iteration_verdict[OF ev]\<close>)
qed

text \<open>
  C9. When the first pair to pass the three filters is \<open>c\<close>, the loop ends in the
  dereference of a null pointer exactly when the longitudinal curve of \<open>c\<close> is not a
  \<^verbatim>\<open>LatticeTrajectory1d\<close>: the branch of the failed cast does not leave the round. When
  every longitudinal curve in the evaluator is a \<^verbatim>\<open>LatticeTrajectory1d\<close>, no run of the
  loop ends so.
\<close>

theorem plan_loop_null_dereference:
  "(trajectory_evaluator st = pre @ c # post
      \<and> (\<forall>p\<in>set pre. is_rejection (filter_verdict deps ref pip (frame_obstacles st) p))
      \<and> filter_verdict deps ref pip (frame_obstacles st) c = Survives combined
     \<longrightarrow> (fault_of (plan_loop deps ref pip st) = Some NullPointerDereference)
          = (\<not> is_LatticeTrajectory1d (lon_curve c)))
   \<and> ((\<forall>p\<in>set (trajectory_evaluator st). is_LatticeTrajectory1d (lon_curve p))
     \<longrightarrow> fault_of (plan_loop deps ref pip st) \<noteq> Some NullPointerDereference)"
proof (intro conjI impI)
  assume "\<forall>p\<in>set (trajectory_evaluator st). is_LatticeTrajectory1d (lon_curve p)"
  then show "fault_of (plan_loop deps ref pip st) \<noteq> Some NullPointerDereference"
    by (rule plan_loop_lattice_no_null)
next
  assume a: "trajectory_evaluator st = pre @ c # post
      \<and> (\<forall>p\<in>set pre. is_rejection (filter_verdict deps ref pip (frame_obstacles st) p))
      \<and> filter_verdict deps ref pip (frame_obstacles st) c = Survives combined"
  then have "plan_loop deps ref pip st =
    Some (map_sum id exit_state
      (plan_selected deps
         (after_rejections st (map (filter_verdict deps ref pip (frame_obstacles st)) pre) post)
         (lon_curve c, lat_curve c) (total_cost c) (cost_components c) combined))"
    by (intro plan_loop_first_survivor) simp_all
  then show "(fault_of (plan_loop deps ref pip st) = Some NullPointerDereference)
          = (\<not> is_LatticeTrajectory1d (lon_curve c))"
    by (simp add: plan_selected_cases Let_def)
qed

theorem plan_loop_null_dereference_witness:
  "fault_of (plan_loop town (straight_line 100) start_point
     (initial_state [candidate (cruise 0 20) 1, candidate (plain_cruise 0 1) 4] fresh_info traffic))
     = Some NullPointerDereference
   \<and> fault_of (plan_loop town (straight_line 100) start_point
       (initial_state five_pairs fresh_info traffic)) \<noteq> Some NullPointerDereference"
proof
  let ?st = "initial_state [candidate (cruise 0 20) 1, candidate (plain_cruise 0 1) 4]
               fresh_info traffic"
  obtain combined where
    surv: "filter_verdict town (straight_line 100) start_point traffic
             (candidate (plain_cruise 0 1) 4) = Survives combined"
    using acceptable_but_plain by blast
  have "trajectory_evaluator ?st = [candidate (cruise 0 20) 1] @ candidate (plain_cruise 0 1) 4 # []
      \<and> (\<forall>p\<in>set [candidate (cruise 0 20) 1].
            is_rejection (filter_verdict town (straight_line 100) start_point (frame_obstacles ?st) p))
      \<and> filter_verdict town (straight_line 100) start_point (frame_obstacles ?st)
            (candidate (plain_cruise 0 1) 4) = Survives combined"
    using surv by (simp add: initial_state_def too_fast_for_pair_check)
  with plan_loop_null_dereference
    [of ?st "[candidate (cruise 0 20) 1]" "candidate (plain_cruise 0 1) 4" "[]"
        town "straight_line 100" start_point combined]
  show "fault_of (plan_loop town (straight_line 100) start_point ?st)
          = Some NullPointerDereference"
    by (simp add: candidate_fields plain_cruise_def)
next
  let ?st = "initial_state five_pairs fresh_info traffic"
  have "\<forall>p\<in>set (trajectory_evaluator ?st). is_LatticeTrajectory1d (lon_curve p)"
    by (simp add: initial_state_def five_pairs_def candidate_fields cruise_def)
  with plan_loop_null_dereference[of ?st _ _ _ town "straight_line 100" start_point]
  show "fault_of (plan_loop town (straight_line 100) start_point ?st)
          \<noteq> Some NullPointerDereference"
    by blast
qed



section \<open>The counters and the course of the loop\<close>


lemma forget_counters_count_rejection [simp]:
  "forget_counters (count_rejection v st) = forget_counters st"
  by (cases v) (simp_all add: forget_counters_def)





section \<open>Plan as a whole\<close>














text \<open>The loop sees the reference line only through the verdicts of the pairs.\<close>

lemma trajectory_evaluator_count_rejection [simp]:
  "trajectory_evaluator (count_rejection v st) = trajectory_evaluator st"
  by (cases v) simp_all









end
